theory Spec2Isabelle
  imports Complex_Main
begin

section \<open>Python values used by the inventory service\<close>

text \<open>
  The service is a single Python module, \<^verbatim>\<open>app.py\<close>. Its numbers are Python floats,
  that is IEEE 754 binary64 values. They are modelled here by \<open>pyfloat\<close>: a finite value
  is the real number it denotes, and the infinities and NaN are constructors. Every
  arithmetic operation, every conversion from a string or an integer and every
  \<^verbatim>\<open>round\<close> returns the binary64 value nearest to the exact result, a tie going to
  the even significand, and an infinity when that value is out of range. The sign of
  zero is the one thing of binary64 that is not modelled: both zeros are \<open>Fin 0\<close>.

  Strings are lists of characters, and the model is about ASCII strings:
  \<^verbatim>\<open>str.lower\<close>, \<^verbatim>\<open>str.strip\<close> and \<^verbatim>\<open>float()\<close> treat the letters, the
  whitespace and the digits of ASCII as Python does, and no other character as a
  letter, whitespace or digit.
\<close>

datatype pyfloat = Fin real | PInf | NInf | NaN

subsection \<open>Rounding to binary64\<close>

text \<open>The number of binary digits of a natural number.\<close>

function bit_length :: "nat \<Rightarrow> nat" where
  "bit_length n = (if n = 0 then 0 else Suc (bit_length (n div 2)))"
  by pat_completeness auto
termination
  by (relation "measure (\<lambda>n. n)") auto

declare bit_length.simps [simp del]

text \<open>For a positive real \<open>x\<close>, the integer \<open>k\<close> with \<open>2 ^ k \<le> x < 2 ^ (k + 1)\<close>.\<close>

definition ilog2 :: "real \<Rightarrow> int" where
  "ilog2 x =
     (if 1 \<le> x then int (bit_length (nat \<lfloor>x\<rfloor>)) - 1
      else - int (bit_length (nat (\<lceil>1 / x\<rceil> - 1))))"

definition pow2 :: "int \<Rightarrow> real" where
  "pow2 e = (if 0 \<le> e then 2 ^ nat e else 1 / 2 ^ nat (- e))"

text \<open>The nearest integer, a tie going to the even one.\<close>

definition round_half_even :: "real \<Rightarrow> int" where
  "round_half_even x =
     (let f = \<lfloor>x\<rfloor>; d = x - of_int f in
      if d < 1 / 2 then f
      else if 1 / 2 < d then f + 1
      else if even f then f else f + 1)"

text \<open>
  The binary64 value nearest to a real number. A binary64 value is an integer of at
  most 53 binary digits times a power of two whose exponent is at least -1074; the
  exponent \<open>e\<close> below is the one that gives \<open>x\<close> 53 digits (or -1074 for a subnormal), the
  quotient is rounded to an integer, and a result of magnitude \<open>2 ^ 1024\<close> or more is out
  of range.
\<close>

definition to_double :: "real \<Rightarrow> pyfloat" where
  "to_double x =
     (if x = 0 then Fin 0
      else
        (let e = max (ilog2 \<bar>x\<bar> - 52) (- 1074);
             r = of_int (round_half_even (x / pow2 e)) * pow2 e
         in if 2 ^ 1024 \<le> \<bar>r\<bar> then (if x < 0 then NInf else PInf) else Fin r))"

subsection \<open>Comparison and arithmetic\<close>

text \<open>Python's \<^verbatim>\<open>a < b\<close> on floats: every comparison with NaN is false.\<close>

fun pf_lt :: "pyfloat \<Rightarrow> pyfloat \<Rightarrow> bool" where
  "pf_lt NaN _ = False"
| "pf_lt _ NaN = False"
| "pf_lt (Fin a) (Fin b) = (a < b)"
| "pf_lt (Fin a) PInf = True"
| "pf_lt (Fin a) NInf = False"
| "pf_lt PInf _ = False"
| "pf_lt NInf NInf = False"
| "pf_lt NInf _ = True"

text \<open>Python's \<^verbatim>\<open>a >= b\<close> on floats.\<close>

fun pf_ge :: "pyfloat \<Rightarrow> pyfloat \<Rightarrow> bool" where
  "pf_ge NaN _ = False"
| "pf_ge _ NaN = False"
| "pf_ge (Fin a) (Fin b) = (b \<le> a)"
| "pf_ge PInf _ = True"
| "pf_ge _ NInf = True"
| "pf_ge (Fin a) PInf = False"
| "pf_ge NInf _ = False"

fun pf_neg :: "pyfloat \<Rightarrow> pyfloat" where
  "pf_neg (Fin a) = Fin (- a)"
| "pf_neg PInf = NInf"
| "pf_neg NInf = PInf"
| "pf_neg NaN = NaN"

fun pf_add :: "pyfloat \<Rightarrow> pyfloat \<Rightarrow> pyfloat" where
  "pf_add NaN _ = NaN"
| "pf_add _ NaN = NaN"
| "pf_add (Fin a) (Fin b) = to_double (a + b)"
| "pf_add PInf NInf = NaN"
| "pf_add NInf PInf = NaN"
| "pf_add PInf _ = PInf"
| "pf_add NInf _ = NInf"
| "pf_add (Fin a) b = b"

definition pf_sub :: "pyfloat \<Rightarrow> pyfloat \<Rightarrow> pyfloat" where
  "pf_sub a b = pf_add a (pf_neg b)"

text \<open>An infinity times zero is NaN; otherwise the signs multiply.\<close>

fun pf_inf_times :: "bool \<Rightarrow> real \<Rightarrow> pyfloat" where
  "pf_inf_times negative b =
     (if b = 0 then NaN
      else if (0 < b) = negative then NInf else PInf)"

fun pf_mul :: "pyfloat \<Rightarrow> pyfloat \<Rightarrow> pyfloat" where
  "pf_mul NaN _ = NaN"
| "pf_mul _ NaN = NaN"
| "pf_mul (Fin a) (Fin b) = to_double (a * b)"
| "pf_mul PInf (Fin b) = pf_inf_times False b"
| "pf_mul NInf (Fin b) = pf_inf_times True b"
| "pf_mul (Fin a) PInf = pf_inf_times False a"
| "pf_mul (Fin a) NInf = pf_inf_times True a"
| "pf_mul PInf PInf = PInf"
| "pf_mul PInf NInf = NInf"
| "pf_mul NInf PInf = NInf"
| "pf_mul NInf NInf = PInf"

text \<open>
  Division. Python raises \<^verbatim>\<open>ZeroDivisionError\<close> on a zero divisor; the program divides
  by the literal \<^verbatim>\<open>100.0\<close> only, so that case is never evaluated and is given NaN here.
\<close>

fun pf_div :: "pyfloat \<Rightarrow> pyfloat \<Rightarrow> pyfloat" where
  "pf_div NaN _ = NaN"
| "pf_div _ NaN = NaN"
| "pf_div (Fin a) (Fin b) = (if b = 0 then NaN else to_double (a / b))"
| "pf_div PInf (Fin b) = (if b = 0 then NaN else if 0 < b then PInf else NInf)"
| "pf_div NInf (Fin b) = (if b = 0 then NaN else if 0 < b then NInf else PInf)"
| "pf_div (Fin a) _ = Fin 0"
| "pf_div _ _ = NaN"

text \<open>
  \<^verbatim>\<open>round(x, 2)\<close>: the exact value of \<open>x\<close> is rounded to the nearest multiple of 0.01,
  a tie going to the even one, and the float nearest to that decimal is returned;
  an infinity or NaN is returned as it is.
\<close>

definition round2 :: "real \<Rightarrow> real" where
  "round2 x = of_int (round_half_even (x * 100)) / 100"

fun pf_round2 :: "pyfloat \<Rightarrow> pyfloat" where
  "pf_round2 (Fin x) = to_double (round2 x)"
| "pf_round2 f = f"

text \<open>
  The two-argument \<^verbatim>\<open>min(a, b)\<close> and \<^verbatim>\<open>max(a, b)\<close> of Python keep the first
  argument unless the second is strictly smaller (larger).
\<close>

definition py_min :: "pyfloat \<Rightarrow> pyfloat \<Rightarrow> pyfloat" where
  "py_min a b = (if pf_lt b a then b else a)"

definition py_max :: "pyfloat \<Rightarrow> pyfloat \<Rightarrow> pyfloat" where
  "py_max a b = (if pf_lt a b then b else a)"

subsection \<open>Strings\<close>

definition lower_char :: "char \<Rightarrow> char" where
  "lower_char c =
     (case map_of (zip ''ABCDEFGHIJKLMNOPQRSTUVWXYZ'' ''abcdefghijklmnopqrstuvwxyz'') c of
        Some d \<Rightarrow> d
      | None \<Rightarrow> c)"

definition str_lower :: "string \<Rightarrow> string" where
  "str_lower s = map lower_char s"

text \<open>
  The ASCII characters for which \<^verbatim>\<open>str.isspace\<close> holds, which \<^verbatim>\<open>str.strip\<close>
  removes: 9 to 13 and 28 to 32.
\<close>

definition is_space :: "char \<Rightarrow> bool" where
  "is_space c =
     (c \<in> set [CHR 0x09, CHR 0x0A, CHR 0x0B, CHR 0x0C, CHR 0x0D,
                CHR 0x1C, CHR 0x1D, CHR 0x1E, CHR 0x1F, CHR 0x20])"

definition str_strip :: "string \<Rightarrow> string" where
  "str_strip s = rev (dropWhile is_space (rev (dropWhile is_space s)))"

text \<open>
  The whitespace that \<^verbatim>\<open>float()\<close> skips around an ASCII string: 9 to 13 and 32.
  The characters 28 to 31 are not skipped: \<^verbatim>\<open>float("\x1c1")\<close> raises.
\<close>

definition is_float_space :: "char \<Rightarrow> bool" where
  "is_float_space c =
     (c \<in> set [CHR 0x09, CHR 0x0A, CHR 0x0B, CHR 0x0C, CHR 0x0D, CHR 0x20])"

definition float_strip :: "string \<Rightarrow> string" where
  "float_strip s = rev (dropWhile is_float_space (rev (dropWhile is_float_space s)))"

subsection \<open>The builtin \<^verbatim>\<open>float()\<close> on a string\<close>

definition digit_val :: "char \<Rightarrow> nat option" where
  "digit_val c = map_of (zip ''0123456789'' [0, 1, 2, 3, 4, 5, 6, 7, 8, 9]) c"

definition is_digit :: "char \<Rightarrow> bool" where
  "is_digit c = (digit_val c \<noteq> None)"

text \<open>
  A run of digits, read into its value and its number of digits; the rest of the string
  is returned. An underscore is skipped when it stands between two digits.
\<close>

fun digits_from :: "nat \<Rightarrow> nat \<Rightarrow> string \<Rightarrow> nat \<times> nat \<times> string" where
  "digits_from acc cnt [] = (acc, cnt, [])"
| "digits_from acc cnt (c # cs) =
     (case digit_val c of
        Some d \<Rightarrow> digits_from (10 * acc + d) (Suc cnt) cs
      | None \<Rightarrow>
          if c = CHR ''_'' \<and> 0 < cnt \<and> (case cs of [] \<Rightarrow> False | d # _ \<Rightarrow> is_digit d)
          then digits_from acc cnt cs
          else (acc, cnt, c # cs))"

definition split_sign :: "string \<Rightarrow> bool \<times> string" where
  "split_sign s =
     (case s of
        [] \<Rightarrow> (False, [])
      | c # cs \<Rightarrow>
          if c = CHR ''-'' then (True, cs)
          else if c = CHR ''+'' then (False, cs)
          else (False, s))"

text \<open>
  An unsigned decimal literal: digits, an optional point and digits (one digit at least
  on either side of the point), an optional exponent. Anything left over is an error.
\<close>

definition parse_decimal :: "string \<Rightarrow> real option" where
  "parse_decimal s =
     (case digits_from 0 0 s of (ip, ni, r1) \<Rightarrow>
      (case (case r1 of
               [] \<Rightarrow> (0, 0, [])
             | c # t \<Rightarrow> if c = CHR ''.'' then digits_from 0 0 t else (0, 0, r1))
       of (fp, nf, r2) \<Rightarrow>
         if ni + nf = 0 then None
         else
           (let mant = real ip + real fp / 10 ^ nf in
            case r2 of
              [] \<Rightarrow> Some mant
            | c # t \<Rightarrow>
                if c = CHR ''e'' \<or> c = CHR ''E'' then
                  (case split_sign t of (eneg, t') \<Rightarrow>
                   (case digits_from 0 0 t' of (ev, ne, r3) \<Rightarrow>
                      if ne = 0 \<or> r3 \<noteq> [] then None
                      else Some (if eneg then mant / 10 ^ ev else mant * 10 ^ ev)))
                else None)))"

text \<open>
  \<^verbatim>\<open>float(s)\<close> for a string: surrounding whitespace is dropped, a sign is read, then
  either one of the names of the special values (in any case) or a decimal literal,
  whose value is rounded to binary64: a literal too large gives an infinity, one too
  small gives zero. \<open>None\<close> is Python's \<^verbatim>\<open>ValueError\<close>.
\<close>

definition py_float_str :: "string \<Rightarrow> pyfloat option" where
  "py_float_str s =
     (case split_sign (float_strip s) of (neg, u) \<Rightarrow>
        if str_lower u = ''inf'' \<or> str_lower u = ''infinity''
        then Some (if neg then NInf else PInf)
        else if str_lower u = ''nan'' then Some NaN
        else (case parse_decimal u of
                None \<Rightarrow> None
              | Some v \<Rightarrow> Some (to_double (if neg then - v else v))))"

subsection \<open>JSON values\<close>

text \<open>
  What \<^verbatim>\<open>request.get_json\<close> returns and what \<^verbatim>\<open>jsonify\<close> takes. A Python dict is
  given by its list of entries and read with \<open>map_of\<close>.
\<close>

datatype json =
    JNull
  | JBool bool
  | JInt int
  | JFloat pyfloat
  | JStr string
  | JList "json list"
  | JDict "(string \<times> json) list"

datatype py_exc = AttributeError | ValueError | TypeError | OverflowError

text \<open>Python's truth value of an object, as \<^verbatim>\<open>not x\<close> and \<^verbatim>\<open>x or y\<close> test it.\<close>

fun truthy :: "json \<Rightarrow> bool" where
  "truthy JNull = False"
| "truthy (JBool b) = b"
| "truthy (JInt n) = (n \<noteq> 0)"
| "truthy (JFloat f) = (f \<noteq> Fin 0)"
| "truthy (JStr s) = (s \<noteq> [])"
| "truthy (JList xs) = (xs \<noteq> [])"
| "truthy (JDict kvs) = (kvs \<noteq> [])"

fun is_str :: "json \<Rightarrow> bool" where
  "is_str (JStr s) = True"
| "is_str _ = False"

text \<open>
  The builtin \<^verbatim>\<open>float(x)\<close> on a decoded JSON value. An integer is rounded to
  binary64, and one that is out of range raises \<^verbatim>\<open>OverflowError\<close>.
\<close>

fun py_float :: "json \<Rightarrow> py_exc + pyfloat" where
  "py_float JNull = Inl TypeError"
| "py_float (JBool b) = Inr (Fin (if b then 1 else 0))"
| "py_float (JInt n) =
     (case to_double (of_int n) of Fin r \<Rightarrow> Inr (Fin r) | _ \<Rightarrow> Inl OverflowError)"
| "py_float (JFloat f) = Inr f"
| "py_float (JStr s) = (case py_float_str s of None \<Rightarrow> Inl ValueError | Some f \<Rightarrow> Inr f)"
| "py_float (JList xs) = Inl TypeError"
| "py_float (JDict kvs) = Inl TypeError"

text \<open>\<^verbatim>\<open>d.get(key)\<close> on a dict: \<^verbatim>\<open>None\<close> for a missing key.\<close>

definition dict_get :: "(string \<times> json) list \<Rightarrow> string \<Rightarrow> json" where
  "dict_get kvs k = (case map_of kvs k of None \<Rightarrow> JNull | Some v \<Rightarrow> v)"

section \<open>Domain model: \<^verbatim>\<open>Item\<close> and \<^verbatim>\<open>Inventory\<close>\<close>

text \<open>
  The dataclass \<^verbatim>\<open>Item\<close>. Its field \<^verbatim>\<open>id\<close> is \<open>item_id\<close> here. The program only
  builds items from a string name, a float price and a string category.
\<close>

record item =
  name :: string
  price :: pyfloat
  category :: string
  item_id :: int

text \<open>
  The state of the process: the list \<^verbatim>\<open>inventory._items\<close> and the next value of the
  module-level counter \<^verbatim>\<open>_id_seq = count(1)\<close>.
\<close>

record state =
  items :: "item list"
  next_id :: int

text \<open>
  \<^verbatim>\<open>Item(name, price, category)\<close>: the default factory of \<^verbatim>\<open>id\<close> takes
  \<^verbatim>\<open>next(_id_seq)\<close>, which advances the counter.
\<close>

definition new_Item :: "string \<Rightarrow> pyfloat \<Rightarrow> string \<Rightarrow> state \<Rightarrow> item \<times> state" where
  "new_Item n p c st =
     (\<lparr>name = n, price = p, category = c, item_id = next_id st\<rparr>,
      st\<lparr>next_id := next_id st + 1\<rparr>)"

text \<open>\<^verbatim>\<open>Item.apply_discount\<close>\<close>

definition apply_discount :: "item \<Rightarrow> pyfloat \<Rightarrow> pyfloat" where
  "apply_discount self percent =
     (let percent = py_max (Fin 0) (py_min percent (Fin 100));
          discounted =
            pf_round2 (pf_mul (price self) (pf_sub (Fin 1) (pf_div percent (Fin 100))))
      in discounted)"

text \<open>\<^verbatim>\<open>Item.to_dict\<close>: \<^verbatim>\<open>asdict\<close> lists the fields in their declared order.\<close>

definition to_dict :: "item \<Rightarrow> json" where
  "to_dict self =
     JDict [(''name'', JStr (name self)), (''price'', JFloat (price self)),
            (''category'', JStr (category self)), (''id'', JInt (item_id self))]"

text \<open>\<^verbatim>\<open>Inventory.add\<close>, \<^verbatim>\<open>Inventory.all\<close>, \<^verbatim>\<open>Inventory.by_category\<close>, \<^verbatim>\<open>Inventory.expensive\<close>\<close>

definition add :: "state \<Rightarrow> item \<Rightarrow> item \<times> state" where
  "add st it = (it, st\<lparr>items := items st @ [it]\<rparr>)"

definition inventory_all :: "state \<Rightarrow> item list" where
  "inventory_all st = items st"

definition by_category :: "state \<Rightarrow> string \<Rightarrow> item list" where
  "by_category st cat = filter (\<lambda>i. str_lower (category i) = str_lower cat) (items st)"

definition expensive :: "state \<Rightarrow> pyfloat \<Rightarrow> item list" where
  "expensive st min_price = filter (\<lambda>i. pf_ge (price i) min_price) (items st)"

text \<open>
  The seed data: five items built in order at import time, the counter starting at 1.
  A price is written as a decimal literal and stored as the float nearest to it.
\<close>

definition seed_data :: "(string \<times> real \<times> string) list" where
  "seed_data =
     [(''USB-C Cable'', 999 / 100, ''electronics''),
      (''Wireless Mouse'', 2450 / 100, ''electronics''),
      (''Notebook (A5)'', 325 / 100, ''stationery''),
      (''Office Chair'', 189, ''furniture''),
      (''Standing Desk'', 39999 / 100, ''furniture'')]"

fun seed_items :: "(string \<times> real \<times> string) list \<Rightarrow> state \<Rightarrow> state" where
  "seed_items [] st = st"
| "seed_items ((n, p, c) # rest) st =
     (case new_Item n (to_double p) c st of (it, st') \<Rightarrow>
        seed_items rest (snd (add st' it)))"

definition initial_state :: state where
  "initial_state = seed_items seed_data \<lparr>items = [], next_id = 1\<rparr>"

section \<open>Functional helpers\<close>

definition items_to_dicts :: "item list \<Rightarrow> json list" where
  "items_to_dicts its = map (\<lambda>i. to_dict i) its"

text \<open>
  \<^verbatim>\<open>filter_items\<close>: the list \<^verbatim>\<open>preds\<close> is built from the arguments that are not
  \<^verbatim>\<open>None\<close>; with no predicate the list is returned as it is.
\<close>

definition filter_items :: "item list \<Rightarrow> pyfloat option \<Rightarrow> string option \<Rightarrow> item list" where
  "filter_items its min_price cat =
     (let preds =
            (case min_price of
               None \<Rightarrow> []
             | Some m \<Rightarrow> [\<lambda>i. pf_ge (price i) m])
            @ (case cat of
                 None \<Rightarrow> []
               | Some c \<Rightarrow> [\<lambda>i. str_lower (category i) = str_lower c])
      in if preds = [] then its
         else filter (\<lambda>i. list_all (\<lambda>p. p i) preds) its)"

section \<open>Simulated pricing service\<close>





section \<open>Routes\<close>

text \<open>
  A request carries the decoded JSON body (\<open>None\<close> when the body is not JSON:
  \<^verbatim>\<open>get_json(force=True, silent=True)\<close> then returns \<^verbatim>\<open>None\<close>), the form fields and
  the query arguments. \<^verbatim>\<open>form.to_dict()\<close> and \<^verbatim>\<open>args.get\<close> take the first value of
  a key, as \<open>map_of\<close> does.

  A response is a status with a JSON body, or an exception that no handler caught,
  which Flask answers with status 500.
\<close>

record request =
  json_body :: "json option"
  form :: "(string \<times> string) list"
  args :: "(string \<times> string) list"

datatype response = Resp nat json | Unhandled py_exc

fun status :: "response \<Rightarrow> nat" where
  "status (Resp code body) = code"
| "status (Unhandled e) = 500"

definition error_body :: "string \<Rightarrow> json" where
  "error_body msg = JDict [(''error'', JStr msg)]"

definition get_items :: "state \<Rightarrow> response" where
  "get_items st = Resp 200 (JList (items_to_dicts (inventory_all st)))"

text \<open>
  \<^verbatim>\<open>get_expensive\<close>: \<^verbatim>\<open>float(request.args.get("min", 100))\<close> inside
  \<^verbatim>\<open>try\<close>, the default 100.0 on \<^verbatim>\<open>TypeError\<close> or \<^verbatim>\<open>ValueError\<close>.
\<close>

definition get_expensive :: "state \<Rightarrow> request \<Rightarrow> response" where
  "get_expensive st req =
     (let min_price =
            (case (case map_of (args req) ''min'' of
                     None \<Rightarrow> py_float (JInt 100)
                   | Some s \<Rightarrow> py_float (JStr s))
             of Inl e \<Rightarrow> Fin 100
              | Inr f \<Rightarrow> f);
          its = expensive st min_price
      in Resp 200 (JList (items_to_dicts its)))"

text \<open>
  \<^verbatim>\<open>search_items\<close>: \<^verbatim>\<open>float(min_price)\<close> is called with no \<^verbatim>\<open>try\<close> around it.
\<close>

definition search_items :: "state \<Rightarrow> request \<Rightarrow> response" where
  "search_items st req =
     (let min_price = map_of (args req) ''min'';
          cat = map_of (args req) ''category''
      in case (case min_price of
                 None \<Rightarrow> Inr None
               | Some s \<Rightarrow>
                   (case py_float (JStr s) of Inl e \<Rightarrow> Inl e | Inr f \<Rightarrow> Inr (Some f)))
         of Inl e \<Rightarrow> Unhandled e
          | Inr min_price_f \<Rightarrow>
              Resp 200 (JList (items_to_dicts (filter_items (inventory_all st) min_price_f cat))))"

text \<open>
  \<^verbatim>\<open>data = request.get_json(force=True, silent=True) or request.form.to_dict()\<close>
\<close>

definition form_to_dict :: "(string \<times> string) list \<Rightarrow> json" where
  "form_to_dict fs = JDict (map (\<lambda>(k, v). (k, JStr v)) fs)"

definition request_data :: "request \<Rightarrow> json" where
  "request_data req =
     (case json_body req of
        None \<Rightarrow> form_to_dict (form req)
      | Some j \<Rightarrow> if truthy j then j else form_to_dict (form req))"

text \<open>
  \<^verbatim>\<open>create_item\<close>. \<^verbatim>\<open>data.get\<close> exists on a dict only, and \<^verbatim>\<open>strip\<close> on a string
  only: on another value the attribute lookup raises \<^verbatim>\<open>AttributeError\<close>, which
  nothing catches. The arguments of \<^verbatim>\<open>Item(...)\<close> are evaluated before the item is
  built, so a raising \<^verbatim>\<open>category.strip()\<close> leaves the counter as it is.
\<close>

definition invalid_payload :: string where
  "invalid_payload = ''Invalid payload. Expect name, price, category''"

definition price_not_number :: string where
  "price_not_number = ''Price must be a number''"

definition create_item :: "state \<Rightarrow> request \<Rightarrow> state \<times> response" where
  "create_item st req =
     (case request_data req of
        JDict kvs \<Rightarrow>
          (let nm = dict_get kvs ''name'';
               pr = dict_get kvs ''price'';
               cat = dict_get kvs ''category''
           in if \<not> is_str nm \<or> \<not> truthy cat \<or> \<not> truthy pr
              then (st, Resp 400 (error_body invalid_payload))
              else
                (case py_float pr of
                   Inl e \<Rightarrow> (st, Resp 400 (error_body price_not_number))
                 | Inr p \<Rightarrow>
                     (case (nm, cat) of
                        (JStr n, JStr c) \<Rightarrow>
                          (case new_Item (str_strip n) p (str_strip c) st of (it, st') \<Rightarrow>
                             (case add st' it of (it', st'') \<Rightarrow>
                                (st'', Resp 201 (to_dict it'))))
                      | _ \<Rightarrow> (st, Unhandled AttributeError))))
      | _ \<Rightarrow> (st, Unhandled AttributeError))"


text \<open>A sequence of \<^verbatim>\<open>POST /items\<close> requests handled one after another.\<close>

fun run_creates :: "state \<Rightarrow> request list \<Rightarrow> state" where
  "run_creates st [] = st"
| "run_creates st (r # rs) = run_creates (fst (create_item st r)) rs"

section \<open>Notions of the specification\<close>

text \<open>
  The specification's clamp of a percentage into the interval from 0 to 100, on real
  numbers.
\<close>

definition clamp_percent :: "real \<Rightarrow> real" where
  "clamp_percent p = max 0 (min p 100)"




text \<open>The identifiers of the inventory are 1, 2, ... up to the counter, in order.\<close>

definition ids_ok :: "state \<Rightarrow> bool" where
  "ids_ok st = (1 \<le> next_id st \<and> map item_id (items st) = [1..next_id st - 1])"

text \<open>Requests with a JSON body only, with form fields only, with a query only.\<close>

definition json_request :: "json \<Rightarrow> request" where
  "json_request j = \<lparr>json_body = Some j, form = [], args = []\<rparr>"

definition form_request :: "(string \<times> string) list \<Rightarrow> request" where
  "form_request fs = \<lparr>json_body = None, form = fs, args = []\<rparr>"

definition query_request :: "(string \<times> string) list \<Rightarrow> request" where
  "query_request qs = \<lparr>json_body = None, form = [], args = qs\<rparr>"


text \<open>
  The claim about a zero price, for one request: with a non-empty string name and
  category, the price 0 or \<open>"0"\<close> is answered 400 with the first error.
\<close>

definition spec_zero_price_rejected :: "state \<Rightarrow> request \<Rightarrow> bool" where
  "spec_zero_price_rejected st req =
     (case request_data req of
        JDict kvs \<Rightarrow>
          if (dict_get kvs ''price'' = JInt 0 \<or> dict_get kvs ''price'' = JStr ''0'')
             \<and> is_str (dict_get kvs ''name'') \<and> truthy (dict_get kvs ''name'')
             \<and> is_str (dict_get kvs ''category'') \<and> truthy (dict_get kvs ''category'')
          then create_item st req = (st, Resp 400 (error_body invalid_payload))
          else True
      | _ \<Rightarrow> True)"

text \<open>Payloads used as examples.\<close>

definition pen_payload :: "json \<Rightarrow> json" where
  "pen_payload pr =
     JDict [(''name'', JStr ''Pen''), (''price'', pr), (''category'', JStr ''stationery'')]"

definition lamp_payload :: json where
  "lamp_payload =
     JDict [(''name'', JStr ''  Desk Lamp ''), (''price'', JInt 12),
            (''category'', JStr '' furniture '')]"



definition number_category_payload :: json where
  "number_category_payload =
     JDict [(''name'', JStr ''Pen''), (''price'', JInt 2), (''category'', JInt 7)]"

section \<open>Properties\<close>

subsection \<open>Evaluation\<close>

lemmas dbl_eval =
  to_double_def ilog2_def pow2_def round_half_even_def round2_def bit_length.simps

lemmas float_str_defs =
  py_float_str_def float_strip_def is_float_space_def split_sign_def str_lower_def
  lower_char_def parse_decimal_def digit_val_def is_digit_def

text \<open>Floats that are written exactly.\<close>

lemma to_double_small:
  "to_double 1 = Fin 1" "to_double 2 = Fin 2" "to_double 10 = Fin 10"
  "to_double 12 = Fin 12" "to_double 100 = Fin 100" "to_double 189 = Fin 189"
  "to_double (3 / 2) = Fin (3 / 2)" "to_double (13 / 4) = Fin (13 / 4)"
  "to_double (49 / 2) = Fin (49 / 2)"
  by (simp_all add: dbl_eval)

text \<open>The floats nearest to 9.99 and 399.99, and to 0.1.\<close>

lemma to_double_seed:
  "to_double (999 / 100) = Fin (5623870034678907 / 562949953421312)"
  "to_double (39999 / 100) = Fin (1759174623976489 / 4398046511104)"
  by (simp_all add: dbl_eval)

lemma to_double_tenth: "to_double (1 / 10) = Fin (3602879701896397 / 36028797018963968)"
  by (simp add: dbl_eval)

lemma round_half_even_close: "\<bar>x - of_int (round_half_even x)\<bar> \<le> 1 / 2"
proof -
  have "of_int \<lfloor>x\<rfloor> \<le> x" and "x < of_int \<lfloor>x\<rfloor> + 1"
    by linarith+
  then show ?thesis
    by (auto simp: round_half_even_def Let_def)
qed

lemma initial_state_eq:
  "initial_state =
     \<lparr>items =
        [\<lparr>name = ''USB-C Cable'', price = to_double (999 / 100), category = ''electronics'',
            item_id = 1\<rparr>,
         \<lparr>name = ''Wireless Mouse'', price = to_double (49 / 2), category = ''electronics'',
            item_id = 2\<rparr>,
         \<lparr>name = ''Notebook (A5)'', price = to_double (13 / 4), category = ''stationery'',
            item_id = 3\<rparr>,
         \<lparr>name = ''Office Chair'', price = to_double 189, category = ''furniture'',
            item_id = 4\<rparr>,
         \<lparr>name = ''Standing Desk'', price = to_double (39999 / 100), category = ''furniture'',
            item_id = 5\<rparr>],
      next_id = 6\<rparr>"
  by (simp add: initial_state_def seed_data_def new_Item_def add_def)

subsection \<open>Discounts\<close>

lemma clamp_eval: "py_max (Fin 0) (py_min (Fin p) (Fin 100)) = Fin (clamp_percent p)"
  by (simp add: py_max_def py_min_def clamp_percent_def max_def min_def)

lemma apply_discount_Fin:
  "apply_discount it (Fin p) =
     pf_round2 (pf_mul (price it) (pf_sub (Fin 1) (pf_div (Fin (clamp_percent p)) (Fin 100))))"
  by (simp add: apply_discount_def clamp_eval)

lemma pf_round2_nearest:
  "\<exists>k::int. pf_round2 (Fin v) = to_double (of_int k / 100) \<and> \<bar>v * 100 - of_int k\<bar> \<le> 1 / 2"
proof (intro exI conjI)
  show "pf_round2 (Fin v) = to_double (of_int (round_half_even (v * 100)) / 100)"
    by (simp add: round2_def)
  show "\<bar>v * 100 - of_int (round_half_even (v * 100))\<bar> \<le> 1 / 2"
    by (rule round_half_even_close)
qed

text \<open>
  The Notebook at 10 percent: the float product of 3.25 and 0.9 is
  2.9250000000000003, above the tie, and is rounded to 2.93.
\<close>

lemma notebook_disc_raw:
  "pf_mul (Fin (13 / 4)) (pf_sub (Fin 1) (pf_div (Fin 10) (Fin 100))) =
     Fin (6586514455029351 / 2251799813685248)"
  by (simp add: pf_sub_def dbl_eval)

lemma notebook_discounted:
  "apply_discount (it\<lparr>price := to_double (325 / 100)\<rparr>) (Fin 10) = to_double (293 / 100)"
proof -
  have c: "clamp_percent 10 = 10" by (simp add: clamp_percent_def)
  show ?thesis
    by (simp add: apply_discount_Fin c pf_sub_def dbl_eval)
qed

text \<open>
  C5. For every item and every real percent \<open>p\<close>, \<open>apply_discount\<close> clamps \<open>p\<close> into
  the interval from 0 to 100 and returns the product \<open>price * (1 - p / 100)\<close>, computed
  in floats as the code computes it, rounded to two decimal places: the result of the
  rounding is the float nearest to \<open>k / 100\<close> for an integer \<open>k\<close> that is within one
  half of a hundred times the product. The function returns the number only: the item
  is an argument and is not changed. On the price 100, the percents -10 and 0 both give
  100.00, and the percents 150 and 100 both give 0.00; on the price 3.25, the percent 10
  gives 2.93.
\<close>

theorem apply_discount_clamps:
  "apply_discount it (Fin p) =
     pf_round2 (pf_mul (price it) (pf_sub (Fin 1) (pf_div (Fin (clamp_percent p)) (Fin 100))))
   \<and> 0 \<le> clamp_percent p \<and> clamp_percent p \<le> 100
   \<and> (\<exists>k::int. pf_round2 (Fin v) = to_double (of_int k / 100)
         \<and> \<bar>v * 100 - of_int k\<bar> \<le> 1 / 2)
   \<and> apply_discount (it\<lparr>price := Fin 100\<rparr>) (Fin (- 10)) = Fin 100
   \<and> apply_discount (it\<lparr>price := Fin 100\<rparr>) (Fin 0) = Fin 100
   \<and> apply_discount (it\<lparr>price := Fin 100\<rparr>) (Fin 150) = Fin 0
   \<and> apply_discount (it\<lparr>price := Fin 100\<rparr>) (Fin 100) = Fin 0
   \<and> apply_discount (it\<lparr>price := to_double (325 / 100)\<rparr>) (Fin 10) = to_double (293 / 100)"
proof -
  have c: "clamp_percent (- 10) = 0" "clamp_percent 0 = 0" "clamp_percent 150 = 100"
    "clamp_percent 100 = 100"
    by (simp_all add: clamp_percent_def)
  have bounds: "0 \<le> clamp_percent p \<and> clamp_percent p \<le> 100"
    by (simp add: clamp_percent_def)
  have hundred:
    "apply_discount (it\<lparr>price := Fin 100\<rparr>) (Fin (- 10)) = Fin 100"
    "apply_discount (it\<lparr>price := Fin 100\<rparr>) (Fin 0) = Fin 100"
    "apply_discount (it\<lparr>price := Fin 100\<rparr>) (Fin 150) = Fin 0"
    "apply_discount (it\<lparr>price := Fin 100\<rparr>) (Fin 100) = Fin 0"
    by (simp_all add: apply_discount_Fin c pf_sub_def dbl_eval)
  show ?thesis
    using bounds hundred notebook_discounted [of it] pf_round2_nearest [of v]
      apply_discount_Fin [of it p]
    by (intro conjI) simp_all
qed

subsection \<open>Out of range\<close>

lemma bit_length_gt: "2 ^ k \<le> n \<Longrightarrow> k < bit_length n"
proof (induction k arbitrary: n)
  case 0
  then have "n \<noteq> 0" by auto
  then show ?case by (subst bit_length.simps) simp
next
  case (Suc k)
  then have "2 ^ k \<le> n div 2" by simp
  then have "k < bit_length (n div 2)" by (rule Suc.IH)
  moreover have "n \<noteq> 0"
  proof -
    have "(0::nat) < 2 ^ Suc k" by simp
    with Suc.prems show ?thesis by linarith
  qed
  ultimately show ?case by (subst bit_length.simps) simp
qed

lemma bit_length_lower: "0 < n \<Longrightarrow> 2 ^ (bit_length n - 1) \<le> n"
proof (induction n rule: bit_length.induct)
  case (1 n)
  show ?case
  proof (cases "n div 2 = 0")
    case True
    then have "bit_length (n div 2) = 0" by (subst bit_length.simps) simp
    then have "bit_length n = 1" using "1.prems" by (subst bit_length.simps) simp
    then show ?thesis using "1.prems" by simp
  next
    case False
    then have pos: "0 < n div 2" by simp
    have ih: "2 ^ (bit_length (n div 2) - 1) \<le> n div 2"
      using "1.IH" "1.prems" pos by simp
    have "0 < bit_length (n div 2)"
      using pos by (subst bit_length.simps) simp
    then have "(2::nat) ^ bit_length (n div 2) = 2 * 2 ^ (bit_length (n div 2) - 1)"
      by (cases "bit_length (n div 2)") simp_all
    moreover have "bit_length n = Suc (bit_length (n div 2))"
      using "1.prems" by (subst bit_length.simps) simp
    ultimately have "(2::nat) ^ (bit_length n - 1) = 2 * 2 ^ (bit_length (n div 2) - 1)"
      by simp
    also have "\<dots> \<le> 2 * (n div 2)" using ih by simp
    also have "\<dots> \<le> n" by simp
    finally show ?thesis .
  qed
qed

lemma round_half_even_ge_floor: "\<lfloor>x\<rfloor> \<le> round_half_even x"
  by (simp add: round_half_even_def Let_def)

text \<open>A real number of magnitude \<open>2 ^ 1024\<close> or more is beyond every finite float.\<close>

lemma to_double_overflow:
  assumes "2 ^ 1024 \<le> x"
  shows "to_double x = PInf"
proof -
  define n where "n = nat \<lfloor>x\<rfloor>"
  define k where "k = bit_length n"
  have x1: "1 \<le> x" and x0: "0 < x"
    using assms by (smt (verit) one_le_power)+
  have fl: "(2::int) ^ 1024 \<le> \<lfloor>x\<rfloor>"
    using assms by (simp add: le_floor_iff)
  then have n_big: "(2::nat) ^ 1024 \<le> n"
    unfolding n_def by (simp add: le_nat_iff)
  then have k_big: "1024 < k"
    unfolding k_def by (rule bit_length_gt)
  have n_pos: "0 < n"
  proof -
    have "(0::nat) < 2 ^ 1024" by simp
    with n_big show ?thesis by linarith
  qed
  have n_le_x: "real n \<le> x"
    unfolding n_def using x0 by (simp add: of_nat_floor)
  have low: "(2::nat) ^ (k - 1) \<le> n"
    unfolding k_def using n_pos by (rule bit_length_lower)
  have il: "ilog2 x = int k - 1"
    using x1 x0 by (simp add: ilog2_def n_def k_def)
  define e where "e = k - 53"
  have e: "max (ilog2 x - 52) (- 1074) = int e"
    using il k_big by (simp add: e_def)
  have pw: "pow2 (int e) = 2 ^ e" by (simp add: pow2_def)
  have split: "(2::real) ^ (k - 1) = 2 ^ 52 * 2 ^ e"
  proof -
    have "k - 1 = 52 + e" using k_big by (simp add: e_def)
    then show ?thesis by (simp add: power_add)
  qed
  have "(2::real) ^ (k - 1) \<le> real n"
    using low by (metis of_nat_le_iff of_nat_numeral of_nat_power)
  then have xk: "(2::real) ^ 52 * 2 ^ e \<le> x"
    using n_le_x split by linarith
  have e_pos: "(0::real) < 2 ^ e" by simp
  have y: "(2::real) ^ 52 \<le> x / 2 ^ e"
    using xk e_pos by (simp only: pos_le_divide_eq)
  then have "(2::int) ^ 52 \<le> \<lfloor>x / 2 ^ e\<rfloor>"
    by (simp add: le_floor_iff)
  then have "(2::int) ^ 52 \<le> round_half_even (x / 2 ^ e)"
    using round_half_even_ge_floor [of "x / 2 ^ e"] by linarith
  then have m: "(2::real) ^ 52 \<le> of_int (round_half_even (x / 2 ^ e))"
    by (metis of_int_le_iff of_int_numeral of_int_power)
  have "(2::real) ^ 1024 \<le> 2 ^ (k - 1)"
    using k_big by (intro power_increasing) simp_all
  also have "\<dots> = 2 ^ 52 * 2 ^ e" by (rule split)
  also have "\<dots> \<le> of_int (round_half_even (x / 2 ^ e)) * 2 ^ e"
    using m by (simp add: mult_right_mono)
  finally have big: "(2::real) ^ 1024 \<le> of_int (round_half_even (x / 2 ^ e)) * 2 ^ e" .
  then have "(2::real) ^ 1024 \<le> \<bar>of_int (round_half_even (x / 2 ^ e)) * 2 ^ e\<bar>"
    by linarith
  then show ?thesis
    using x0 by (simp add: to_double_def e pw Let_def)
qed

lemma to_double_too_large: "to_double (10 ^ 309) = PInf"
  by (rule to_double_overflow) simp

subsection \<open>Filtering\<close>

text \<open>
  C4. \<open>filter_items\<close> returns, in the order of the input, exactly the items that
  satisfy every predicate supplied: \<open>price >= min_price\<close> when \<open>min_price\<close> is given,
  equality of the lower-cased categories when \<open>category\<close> is given. With neither, the
  list comes back unchanged. On the inventory, the category filter alone is
  \<open>Inventory.by_category\<close> and the price filter alone is \<open>Inventory.expensive\<close>.
\<close>

theorem filter_items_all_supplied:
  "filter_items its mp cat =
     filter (\<lambda>i. (case mp of None \<Rightarrow> True | Some m \<Rightarrow> pf_ge (price i) m)
                \<and> (case cat of None \<Rightarrow> True
                    | Some c \<Rightarrow> str_lower (category i) = str_lower c)) its
   \<and> filter_items its None None = its
   \<and> filter_items (items st) None (Some c) = by_category st c
   \<and> filter_items (items st) (Some m) None = expensive st m"
  by (cases mp; cases cat) (simp_all add: filter_items_def by_category_def expensive_def)

text \<open>
  On the seed inventory: the items at or above 100 are the Office Chair and the Standing
  Desk; the categories \<open>Furniture\<close> and \<open>furniture\<close> select the same items; both
  filters together select the Standing Desk.
\<close>

theorem filter_items_all_supplied_witness:
  "map name (filter_items (items initial_state) (Some (Fin 100)) None) =
     [''Office Chair'', ''Standing Desk'']
   \<and> map name (filter_items (items initial_state) None (Some ''Furniture'')) =
     [''Office Chair'', ''Standing Desk'']
   \<and> filter_items (items initial_state) None (Some ''Furniture'') =
     filter_items (items initial_state) None (Some ''furniture'')
   \<and> map name (filter_items (items initial_state) (Some (Fin 200)) (Some ''FURNITURE'')) =
     [''Standing Desk'']"
  using filter_items_all_supplied [of "items initial_state" "Some (Fin 100)" None]
    filter_items_all_supplied [of "items initial_state" None "Some ''Furniture''"]
    filter_items_all_supplied [of "items initial_state" None "Some ''furniture''"]
    filter_items_all_supplied [of "items initial_state" "Some (Fin 200)" "Some ''FURNITURE''"]
  by (simp add: initial_state_eq to_double_small to_double_seed str_lower_def lower_char_def)

subsection \<open>Identifiers\<close>

text \<open>
  A request to create an item either leaves the state as it is or appends one item
  that carries the counter's value, and advances the counter.
\<close>

lemma create_item_cases:
  "fst (create_item st r) = st \<or>
   (\<exists>n p c. fst (create_item st r) =
      st\<lparr>next_id := next_id st + 1,
         items := items st @ [\<lparr>name = n, price = p, category = c, item_id = next_id st\<rparr>]\<rparr>)"
  by (auto simp: create_item_def new_Item_def add_def Let_def
           split: json.splits sum.splits prod.splits)

lemma ids_ok_create: "ids_ok st \<Longrightarrow> ids_ok (fst (create_item st r))"
  using create_item_cases [of st r]
  by (auto simp: ids_ok_def upto_rec2)

lemma ids_ok_run: "ids_ok st \<Longrightarrow> ids_ok (run_creates st rs)"
  by (induction rs arbitrary: st) (simp_all add: ids_ok_create)

lemma items_prefix_create: "\<exists>new. items (fst (create_item st r)) = items st @ new"
  using create_item_cases [of st r] by auto

lemma items_prefix_run: "\<exists>new. items (run_creates st rs) = items st @ new"
proof (induction rs arbitrary: st)
  case Nil
  then show ?case by simp
next
  case (Cons r rs)
  obtain n1 where a: "items (fst (create_item st r)) = items st @ n1"
    using items_prefix_create by blast
  obtain n2 where b: "items (run_creates (fst (create_item st r)) rs) =
      items (fst (create_item st r)) @ n2"
    using Cons.IH by blast
  show ?case using a b by simp
qed

lemma ids_ok_initial: "ids_ok initial_state"
  by (simp add: ids_ok_def initial_state_eq upto_rec1)

text \<open>
  C6. After any sequence of \<open>POST /items\<close> requests from the start of the process, the
  identifiers of the inventory are the integers from 1 to the counter minus one, in
  order: they start at 1, increase strictly, and no two items share one. The first five
  items are the seed items, with the identifiers 1 to 5 in their listed order.
\<close>

theorem ids_strictly_increasing:
  "map item_id (items (run_creates initial_state rs)) =
     [1..next_id (run_creates initial_state rs) - 1]
   \<and> sorted_wrt (<) (map item_id (items (run_creates initial_state rs)))
   \<and> distinct (map item_id (items (run_creates initial_state rs)))
   \<and> map (\<lambda>i. (item_id i, name i)) (take 5 (items (run_creates initial_state rs))) =
       [(1, ''USB-C Cable''), (2, ''Wireless Mouse''), (3, ''Notebook (A5)''),
        (4, ''Office Chair''), (5, ''Standing Desk'')]"
proof -
  let ?s = "run_creates initial_state rs"
  have ok: "ids_ok ?s" by (simp add: ids_ok_run ids_ok_initial)
  then have eq: "map item_id (items ?s) = [1..next_id ?s - 1]"
    by (simp add: ids_ok_def)
  obtain new where pre: "items ?s = items initial_state @ new"
    using items_prefix_run by blast
  have seeds: "map (\<lambda>i. (item_id i, name i)) (take 5 (items ?s)) =
       [(1, ''USB-C Cable''), (2, ''Wireless Mouse''), (3, ''Notebook (A5)''),
        (4, ''Office Chair''), (5, ''Standing Desk'')]"
    unfolding pre by (simp add: initial_state_eq)
  show ?thesis using eq seeds by simp
qed

subsection \<open>Quotes\<close>







subsection \<open>Creating items\<close>

lemma py_float_str_abc: "py_float_str ''abc'' = None"
  by (simp add: float_str_defs)

lemma py_float_str_0: "py_float_str ''0'' = Some (Fin 0)"
  by (simp add: float_str_defs dbl_eval)

lemma py_float_str_1_5: "py_float_str ''1.5'' = Some (Fin (3 / 2))"
  by (simp add: float_str_defs dbl_eval)

lemma str_strip_Pen: "str_strip ''Pen'' = ''Pen''"
  by (simp add: str_strip_def is_space_def)

lemma str_strip_stationery: "str_strip ''stationery'' = ''stationery''"
  by (simp add: str_strip_def is_space_def)


text \<open>The outcomes of \<open>create_item\<close> on a dict.\<close>

lemma create_item_invalid:
  assumes "request_data req = JDict kvs"
    and "\<not> is_str (dict_get kvs ''name'') \<or> \<not> truthy (dict_get kvs ''category'')
         \<or> \<not> truthy (dict_get kvs ''price'')"
  shows "create_item st req = (st, Resp 400 (error_body invalid_payload))"
  using assms by (auto simp: create_item_def Let_def)

lemma create_item_bad_price:
  assumes "request_data req = JDict kvs"
    and "is_str (dict_get kvs ''name'')" and "truthy (dict_get kvs ''category'')"
    and "truthy (dict_get kvs ''price'')"
    and "py_float (dict_get kvs ''price'') = Inl e"
  shows "create_item st req = (st, Resp 400 (error_body price_not_number))"
  using assms by (simp add: create_item_def Let_def)

lemma create_item_created:
  assumes "request_data req = JDict kvs"
    and "dict_get kvs ''name'' = JStr n" and "dict_get kvs ''category'' = JStr c"
    and "c \<noteq> []"
    and "truthy (dict_get kvs ''price'')"
    and "py_float (dict_get kvs ''price'') = Inr p"
  shows "create_item st req =
     (st\<lparr>next_id := next_id st + 1,
         items := items st @ [\<lparr>name = str_strip n, price = p, category = str_strip c,
                                item_id = next_id st\<rparr>]\<rparr>,
      Resp 201 (to_dict \<lparr>name = str_strip n, price = p, category = str_strip c,
                         item_id = next_id st\<rparr>))"
  using assms by (simp add: create_item_def Let_def new_Item_def add_def)

lemma create_item_strip_raises:
  assumes "request_data req = JDict kvs"
    and "is_str (dict_get kvs ''name'')"
    and "truthy (dict_get kvs ''category'')" and "\<not> is_str (dict_get kvs ''category'')"
    and "truthy (dict_get kvs ''price'')"
    and "py_float (dict_get kvs ''price'') = Inr p"
  shows "create_item st req = (st, Unhandled AttributeError)"
  using assms
  by (cases "dict_get kvs ''name''"; cases "dict_get kvs ''category''")
     (simp_all add: create_item_def Let_def)

lemma request_data_json: "truthy j \<Longrightarrow> request_data (json_request j) = j"
  by (simp add: request_data_def json_request_def)

lemma request_data_form: "json_body req = None \<Longrightarrow> request_data req = form_to_dict (form req)"
  by (simp add: request_data_def)

lemma dict_get_form:
  "dict_get (map (\<lambda>(k, v). (k, JStr v)) fs) k =
     (case map_of fs k of None \<Rightarrow> JNull | Some v \<Rightarrow> JStr v)"
  by (induction fs) (auto simp: dict_get_def)

lemma form_field_str_or_null:
  "dict_get (map (\<lambda>(k, v). (k, JStr v)) fs) k = JNull \<or>
   is_str (dict_get (map (\<lambda>(k, v). (k, JStr v)) fs) k)"
  by (simp add: dict_get_form split: option.splits)

lemma create_item_form_status:
  assumes "json_body req = None"
  shows "status (snd (create_item st req)) = 400 \<or> status (snd (create_item st req)) = 201"
proof -
  let ?kvs = "map (\<lambda>(k, v). (k, JStr v)) (form req)"
  have d: "request_data req = JDict ?kvs"
    using assms by (simp add: request_data_form form_to_dict_def)
  show ?thesis
  proof (cases "\<not> is_str (dict_get ?kvs ''name'') \<or> \<not> truthy (dict_get ?kvs ''category'')
         \<or> \<not> truthy (dict_get ?kvs ''price'')")
    case True
    then show ?thesis using create_item_invalid [OF d] by simp
  next
    case False
    then have n: "is_str (dict_get ?kvs ''name'')" and c: "truthy (dict_get ?kvs ''category'')"
      and p: "truthy (dict_get ?kvs ''price'')" by auto
    obtain n' where n': "dict_get ?kvs ''name'' = JStr n'"
      using n by (cases "dict_get ?kvs ''name''") auto
    from c form_field_str_or_null [of "form req" "''category''"]
    obtain c' where c': "dict_get ?kvs ''category'' = JStr c'"
      by (cases "dict_get ?kvs ''category''") auto
    with c have ne: "c' \<noteq> []" by simp
    show ?thesis
    proof (cases "py_float (dict_get ?kvs ''price'')")
      case (Inl x)
      then show ?thesis using create_item_bad_price [OF d n c p] by simp
    next
      case (Inr f)
      then show ?thesis using create_item_created [OF d n' c' ne p] by simp
    qed
  qed
qed

lemma pen_payload_data: "request_data (json_request (pen_payload pr)) = pen_payload pr"
  by (simp add: request_data_json pen_payload_def)

lemma pen_payload_gets:
  "dict_get [(''name'', JStr ''Pen''), (''price'', pr), (''category'', JStr ''stationery'')]
     ''name'' = JStr ''Pen''"
  "dict_get [(''name'', JStr ''Pen''), (''price'', pr), (''category'', JStr ''stationery'')]
     ''price'' = pr"
  "dict_get [(''name'', JStr ''Pen''), (''price'', pr), (''category'', JStr ''stationery'')]
     ''category'' = JStr ''stationery''"
  by (simp_all add: dict_get_def)

text \<open>
  What \<open>float()\<close> does at the edges: a small integer is converted exactly, an integer
  beyond the range raises \<open>OverflowError\<close>, a decimal literal beyond the range is
  infinity, and the separator character 28 before a digit is not skipped.
\<close>

lemma py_float_small_int:
  "py_float (JInt 1) = Inr (Fin 1)" "py_float (JInt 2) = Inr (Fin 2)"
  "py_float (JInt 12) = Inr (Fin 12)"
  by (simp_all add: to_double_small)









text \<open>
  C8, as amended. For every \<open>POST /items\<close> request whose data is a dict: a price that
  is the number 0 (the integer 0 or the float 0.0) is falsy, and the answer is 400 with
  the error "Invalid payload. Expect name, price, category", the state unchanged. A
  price that is the string \<open>"0"\<close> is truthy: with a string name and a non-empty string
  category the item is created with the price 0.0 and the answer is 201.
\<close>

theorem create_item_zero_price:
  assumes "request_data req = JDict kvs"
  shows "(dict_get kvs ''price'' = JInt 0 \<or> dict_get kvs ''price'' = JFloat (Fin 0)
          \<longrightarrow> create_item st req = (st, Resp 400 (error_body invalid_payload)))
       \<and> (dict_get kvs ''price'' = JStr ''0'' \<and> dict_get kvs ''name'' = JStr n
            \<and> dict_get kvs ''category'' = JStr c \<and> c \<noteq> []
          \<longrightarrow> create_item st req =
               (st\<lparr>next_id := next_id st + 1,
                   items := items st @ [\<lparr>name = str_strip n, price = Fin 0,
                                          category = str_strip c, item_id = next_id st\<rparr>]\<rparr>,
                Resp 201 (to_dict \<lparr>name = str_strip n, price = Fin 0,
                                   category = str_strip c, item_id = next_id st\<rparr>)))"
proof (intro conjI impI)
  assume "dict_get kvs ''price'' = JInt 0 \<or> dict_get kvs ''price'' = JFloat (Fin 0)"
  then have "\<not> truthy (dict_get kvs ''price'')" by auto
  then show "create_item st req = (st, Resp 400 (error_body invalid_payload))"
    using create_item_invalid [OF assms] by blast
next
  assume a: "dict_get kvs ''price'' = JStr ''0'' \<and> dict_get kvs ''name'' = JStr n
            \<and> dict_get kvs ''category'' = JStr c \<and> c \<noteq> []"
  then have t: "truthy (dict_get kvs ''price'')"
    and f: "py_float (dict_get kvs ''price'') = Inr (Fin 0)"
    by (simp_all add: py_float_str_0)
  from a have n: "dict_get kvs ''name'' = JStr n" and c: "dict_get kvs ''category'' = JStr c"
    and ne: "c \<noteq> []" by simp_all
  show "create_item st req =
               (st\<lparr>next_id := next_id st + 1,
                   items := items st @ [\<lparr>name = str_strip n, price = Fin 0,
                                          category = str_strip c, item_id = next_id st\<rparr>]\<rparr>,
                Resp 201 (to_dict \<lparr>name = str_strip n, price = Fin 0,
                                   category = str_strip c, item_id = next_id st\<rparr>))"
    by (rule create_item_created [OF assms n c ne t f])
qed

text \<open>
  On the seed inventory, the Pen payload with the price 0 is rejected, and with the price
  \<open>"0"\<close> it is created with the identifier 6 and the price 0.0.
\<close>

theorem create_item_zero_price_witness:
  "create_item initial_state (json_request (pen_payload (JInt 0))) =
     (initial_state,
      Resp 400 (JDict [(''error'', JStr ''Invalid payload. Expect name, price, category'')]))
   \<and> snd (create_item initial_state (json_request (pen_payload (JStr ''0'')))) =
      Resp 201 (JDict [(''name'', JStr ''Pen''), (''price'', JFloat (Fin 0)),
                       (''category'', JStr ''stationery''), (''id'', JInt 6)])"
proof -
  have d0: "request_data (json_request (pen_payload (JInt 0))) =
      JDict [(''name'', JStr ''Pen''), (''price'', JInt 0), (''category'', JStr ''stationery'')]"
    by (simp add: pen_payload_data) (simp add: pen_payload_def)
  have ds: "request_data (json_request (pen_payload (JStr ''0''))) =
      JDict [(''name'', JStr ''Pen''), (''price'', JStr ''0''),
             (''category'', JStr ''stationery'')]"
    by (simp add: pen_payload_data) (simp add: pen_payload_def)
  have six: "next_id initial_state = 6" by (simp add: initial_state_eq)
  have one: "create_item initial_state (json_request (pen_payload (JInt 0))) =
     (initial_state, Resp 400 (error_body invalid_payload))"
    using create_item_zero_price [OF d0, of initial_state] by (simp add: pen_payload_gets)
  have two: "snd (create_item initial_state (json_request (pen_payload (JStr ''0'')))) =
      Resp 201 (to_dict \<lparr>name = ''Pen'', price = Fin 0, category = ''stationery'',
                         item_id = 6\<rparr>)"
    using create_item_zero_price
      [OF ds, where st = initial_state and n = "''Pen''" and c = "''stationery''"]
    by (simp add: pen_payload_gets str_strip_Pen str_strip_stationery six)
  show ?thesis using one two
    by (simp add: error_body_def invalid_payload_def to_dict_def)
qed

text \<open>
  C8 as stated fails on the price \<open>"0"\<close>: the string is truthy, so the request is not
  rejected; the item is created and the answer is 201.
\<close>

theorem create_item_zero_price_counterexample:
  "\<not> spec_zero_price_rejected initial_state (json_request (pen_payload (JStr ''0'')))
   \<and> status (snd (create_item initial_state (json_request (pen_payload (JStr ''0''))))) = 201"
proof -
  have ds: "request_data (json_request (pen_payload (JStr ''0''))) =
      JDict [(''name'', JStr ''Pen''), (''price'', JStr ''0''),
             (''category'', JStr ''stationery'')]"
    by (simp add: pen_payload_data) (simp add: pen_payload_def)
  have b: "status (snd (create_item initial_state (json_request (pen_payload (JStr ''0''))))) =
      201"
    using create_item_created [OF ds, of "''Pen''" "''stationery''" "Fin 0" initial_state]
    by (simp add: pen_payload_gets py_float_str_0)
  have "\<not> spec_zero_price_rejected initial_state (json_request (pen_payload (JStr ''0'')))"
  proof
    assume "spec_zero_price_rejected initial_state (json_request (pen_payload (JStr ''0'')))"
    then have "create_item initial_state (json_request (pen_payload (JStr ''0''))) =
        (initial_state, Resp 400 (error_body invalid_payload))"
      by (simp add: spec_zero_price_rejected_def ds pen_payload_gets)
    with b show False by simp
  qed
  with b show ?thesis by simp
qed

text \<open>The outcome of \<open>create_item\<close> on form fields, when the body is not JSON.\<close>

lemma create_item_form:
  assumes "json_body req = None"
  shows "create_item st req =
     (case (map_of (form req) ''name'', map_of (form req) ''price'',
            map_of (form req) ''category'') of
        (Some n, Some pr, Some c) \<Rightarrow>
          if pr = [] \<or> c = [] then (st, Resp 400 (error_body invalid_payload))
          else
            (case py_float_str pr of
               None \<Rightarrow> (st, Resp 400 (error_body price_not_number))
             | Some p \<Rightarrow>
                 (st\<lparr>next_id := next_id st + 1,
                     items := items st @ [\<lparr>name = str_strip n, price = p,
                                            category = str_strip c, item_id = next_id st\<rparr>]\<rparr>,
                  Resp 201 (to_dict \<lparr>name = str_strip n, price = p,
                                     category = str_strip c, item_id = next_id st\<rparr>)))
      | _ \<Rightarrow> (st, Resp 400 (error_body invalid_payload)))"
proof -
  let ?kvs = "map (\<lambda>(k, v). (k, JStr v)) (form req)"
  have d: "request_data req = JDict ?kvs"
    using assms by (simp add: request_data_form form_to_dict_def)
  show ?thesis
  proof (cases "map_of (form req) ''name''")
    case None
    then have "\<not> is_str (dict_get ?kvs ''name'')" by (simp add: dict_get_form)
    then show ?thesis using create_item_invalid [OF d] None by simp
  next
    case n: (Some n)
    then have gn: "dict_get ?kvs ''name'' = JStr n" by (simp add: dict_get_form)
    show ?thesis
    proof (cases "map_of (form req) ''price''")
      case None
      then have "\<not> truthy (dict_get ?kvs ''price'')" by (simp add: dict_get_form)
      then show ?thesis using create_item_invalid [OF d] n None by simp
    next
      case p: (Some pr)
      then have gp: "dict_get ?kvs ''price'' = JStr pr" by (simp add: dict_get_form)
      show ?thesis
      proof (cases "map_of (form req) ''category''")
        case None
        then have "\<not> truthy (dict_get ?kvs ''category'')" by (simp add: dict_get_form)
        then show ?thesis using create_item_invalid [OF d] n p None by simp
      next
        case c: (Some c)
        then have gc: "dict_get ?kvs ''category'' = JStr c" by (simp add: dict_get_form)
        show ?thesis
        proof (cases "pr = [] \<or> c = []")
          case True
          then have "\<not> truthy (dict_get ?kvs ''category'') \<or> \<not> truthy (dict_get ?kvs ''price'')"
            using gp gc by auto
          then show ?thesis using create_item_invalid [OF d] n p c True by auto
        next
          case False
          then have tp: "truthy (dict_get ?kvs ''price'')" and ne: "c \<noteq> []"
            and tc: "truthy (dict_get ?kvs ''category'')"
            using gp gc by auto
          have sn: "is_str (dict_get ?kvs ''name'')" using gn by simp
          show ?thesis
          proof (cases "py_float_str pr")
            case None
            then have "py_float (dict_get ?kvs ''price'') = Inl ValueError"
              using gp by simp
            then show ?thesis
              using create_item_bad_price [OF d sn tc tp] n p c False None by simp
          next
            case (Some f)
            then have "py_float (dict_get ?kvs ''price'') = Inr f"
              using gp by simp
            then show ?thesis
              using create_item_created [OF d gn gc ne tp] n p c False Some by simp
          qed
        qed
      qed
    qed
  qed
qed

text \<open>
  C9. When the body is not JSON, \<open>get_json\<close> returns \<open>None\<close> and the handler reads the
  form fields instead, and no exception escapes. With a non-empty name, a non-empty price
  and a non-empty category among the form fields, the request is handled as the JSON payload
  of those three strings would be: 201 with the created item when \<open>float()\<close> accepts
  the price, 400 "Price must be a number" otherwise. With one of the three fields
  absent or the price or the category empty, and so with no form field at all, the answer
  is 400 with the error "Invalid payload. Expect name, price, category", the state
  unchanged, not a server error.
\<close>

theorem create_item_unparsable_json:
  assumes "json_body req = None"
  shows "request_data req = JDict (map (\<lambda>(k, v). (k, JStr v)) (form req))
       \<and> (\<forall>e. snd (create_item st req) \<noteq> Unhandled e)
       \<and> status (snd (create_item st req)) \<noteq> 500
       \<and> (form req = []
          \<longrightarrow> create_item st req = (st, Resp 400 (error_body invalid_payload)))
       \<and> (map_of (form req) ''name'' = None \<or> map_of (form req) ''price'' = None
            \<or> map_of (form req) ''category'' = None
            \<or> map_of (form req) ''price'' = Some [] \<or> map_of (form req) ''category'' = Some []
          \<longrightarrow> create_item st req = (st, Resp 400 (error_body invalid_payload)))
       \<and> (map_of (form req) ''name'' = Some n \<and> map_of (form req) ''price'' = Some pr
            \<and> map_of (form req) ''category'' = Some c \<and> n \<noteq> [] \<and> pr \<noteq> [] \<and> c \<noteq> []
          \<longrightarrow> create_item st req =
               (case py_float_str pr of
                  None \<Rightarrow> (st, Resp 400 (error_body price_not_number))
                | Some p \<Rightarrow>
                    (st\<lparr>next_id := next_id st + 1,
                        items := items st @ [\<lparr>name = str_strip n, price = p,
                                               category = str_strip c,
                                               item_id = next_id st\<rparr>]\<rparr>,
                     Resp 201 (JDict [(''name'', JStr (str_strip n)), (''price'', JFloat p),
                                      (''category'', JStr (str_strip c)),
                                      (''id'', JInt (next_id st))]))))"
proof -
  note f = create_item_form [OF assms, of st]
  have d: "request_data req = JDict (map (\<lambda>(k, v). (k, JStr v)) (form req))"
    using assms by (simp add: request_data_form form_to_dict_def)
  have s: "status (snd (create_item st req)) = 400 \<or> status (snd (create_item st req)) = 201"
    using assms by (rule create_item_form_status)
  then have no500: "status (snd (create_item st req)) \<noteq> 500" by auto
  then have nocrash: "\<forall>e. snd (create_item st req) \<noteq> Unhandled e" by auto
  have empty: "form req = [] \<longrightarrow>
      create_item st req = (st, Resp 400 (error_body invalid_payload))"
    using f by auto
  have missing: "map_of (form req) ''name'' = None \<or> map_of (form req) ''price'' = None
            \<or> map_of (form req) ''category'' = None
            \<or> map_of (form req) ''price'' = Some [] \<or> map_of (form req) ''category'' = Some []
          \<longrightarrow> create_item st req = (st, Resp 400 (error_body invalid_payload))"
    using f by (auto split: option.splits)
  have present: "map_of (form req) ''name'' = Some n \<and> map_of (form req) ''price'' = Some pr
            \<and> map_of (form req) ''category'' = Some c \<and> n \<noteq> [] \<and> pr \<noteq> [] \<and> c \<noteq> []
          \<longrightarrow> create_item st req =
               (case py_float_str pr of
                  None \<Rightarrow> (st, Resp 400 (error_body price_not_number))
                | Some p \<Rightarrow>
                    (st\<lparr>next_id := next_id st + 1,
                        items := items st @ [\<lparr>name = str_strip n, price = p,
                                               category = str_strip c,
                                               item_id = next_id st\<rparr>]\<rparr>,
                     Resp 201 (JDict [(''name'', JStr (str_strip n)), (''price'', JFloat p),
                                      (''category'', JStr (str_strip c)),
                                      (''id'', JInt (next_id st))])))"
    using f by (auto simp: to_dict_def split: option.splits)
  show ?thesis using d no500 nocrash empty missing present by blast
qed

text \<open>
  On the seed inventory, with a body that is not JSON: with no form field the answer is
  400 and the first error; with the form fields of the Pen the Pen is created, with the
  price 1.5 and the identifier 6, and appended to the inventory; with the price
  \<open>abc\<close> the answer is 400 and the second error.
\<close>

theorem create_item_unparsable_json_witness:
  "create_item initial_state (form_request []) =
     (initial_state,
      Resp 400 (JDict [(''error'', JStr ''Invalid payload. Expect name, price, category'')]))
   \<and> create_item initial_state (form_request
        [(''name'', ''Pen''), (''price'', ''1.5''), (''category'', ''stationery'')]) =
     (initial_state\<lparr>next_id := 7,
         items := items initial_state @
           [\<lparr>name = ''Pen'', price = Fin (3 / 2), category = ''stationery'', item_id = 6\<rparr>]\<rparr>,
      Resp 201 (JDict [(''name'', JStr ''Pen''), (''price'', JFloat (Fin (3 / 2))),
                       (''category'', JStr ''stationery''), (''id'', JInt 6)]))
   \<and> create_item initial_state (form_request
        [(''name'', ''Pen''), (''price'', ''abc''), (''category'', ''stationery'')]) =
     (initial_state, Resp 400 (JDict [(''error'', JStr ''Price must be a number'')]))"
proof -
  have six: "next_id initial_state = 6" by (simp add: initial_state_eq)
  have j1: "json_body (form_request []) = None" by (simp add: form_request_def)
  have j2: "json_body (form_request
        [(''name'', ''Pen''), (''price'', ''1.5''), (''category'', ''stationery'')]) = None"
    by (simp add: form_request_def)
  have j3: "json_body (form_request
        [(''name'', ''Pen''), (''price'', ''abc''), (''category'', ''stationery'')]) = None"
    by (simp add: form_request_def)
  have one: "create_item initial_state (form_request []) =
     (initial_state, Resp 400 (error_body invalid_payload))"
    using create_item_unparsable_json [OF j1, where st = initial_state]
    by (simp add: form_request_def)
  have two: "create_item initial_state (form_request
        [(''name'', ''Pen''), (''price'', ''1.5''), (''category'', ''stationery'')]) =
     (initial_state\<lparr>next_id := 7,
         items := items initial_state @
           [\<lparr>name = ''Pen'', price = Fin (3 / 2), category = ''stationery'', item_id = 6\<rparr>]\<rparr>,
      Resp 201 (JDict [(''name'', JStr ''Pen''), (''price'', JFloat (Fin (3 / 2))),
                       (''category'', JStr ''stationery''), (''id'', JInt 6)]))"
    using create_item_unparsable_json
      [OF j2, where st = initial_state and n = "''Pen''" and pr = "''1.5''"
         and c = "''stationery''"]
    by (simp add: form_request_def py_float_str_1_5 str_strip_Pen str_strip_stationery six)
  have three: "create_item initial_state (form_request
        [(''name'', ''Pen''), (''price'', ''abc''), (''category'', ''stationery'')]) =
     (initial_state, Resp 400 (error_body price_not_number))"
    using create_item_unparsable_json
      [OF j3, where st = initial_state and n = "''Pen''" and pr = "''abc''"
         and c = "''stationery''"]
    by (simp add: form_request_def py_float_str_abc)
  show ?thesis using one two three
    by (simp only: error_body_def invalid_payload_def price_not_number_def simp_thms)
qed

text \<open>
  C10. When the name is a string, the price is truthy and accepted by \<open>float()\<close>, and
  the category is truthy but not a string, the validation passes and
  \<open>category.strip()\<close> raises \<open>AttributeError\<close>, which nothing catches: the answer is a
  server error (500), not a 400, and the state is unchanged. The payload with the
  category 7 is such a request.
\<close>

theorem create_item_category_not_string:
  assumes "request_data req = JDict kvs"
    and "is_str (dict_get kvs ''name'')"
    and "truthy (dict_get kvs ''category'')" and "\<not> is_str (dict_get kvs ''category'')"
    and "truthy (dict_get kvs ''price'')"
    and "py_float (dict_get kvs ''price'') = Inr p"
  shows "create_item st req = (st, Unhandled AttributeError)
       \<and> status (snd (create_item st req)) = 500"
  using create_item_strip_raises [OF assms] by simp

theorem create_item_category_not_string_witness:
  "create_item initial_state (json_request number_category_payload) =
     (initial_state, Unhandled AttributeError)
   \<and> status (snd (create_item initial_state (json_request number_category_payload))) = 500"
proof -
  have d: "request_data (json_request number_category_payload) =
      JDict [(''name'', JStr ''Pen''), (''price'', JInt 2), (''category'', JInt 7)]"
    by (simp add: request_data_json number_category_payload_def)
  show ?thesis
    by (rule create_item_category_not_string [OF d, of "Fin 2"])
       (simp_all add: dict_get_def to_double_small)
qed

subsection \<open>A \<open>min\<close> that is not a number\<close>

lemma get_expensive_fallback:
  assumes "map_of (args req) ''min'' = Some s" and "py_float_str s = None"
  shows "get_expensive st req = Resp 200 (JList (items_to_dicts (expensive st (Fin 100))))"
  using assms by (simp add: get_expensive_def)

lemma search_items_raises:
  assumes "map_of (args req) ''min'' = Some s" and "py_float_str s = None"
  shows "search_items st req = Unhandled ValueError"
  using assms by (simp add: search_items_def)

text \<open>
  C3. The claim holds on \<open>/items/expensive\<close> and fails on \<open>/items/search\<close>. With a
  \<open>min\<close> that \<open>float()\<close> rejects, \<open>get_expensive\<close> falls back to 100.0 and answers 200
  with the items at or above 100; \<open>search_items\<close> calls \<open>float(min_price)\<close> with no
  \<open>try\<close> around it, the \<open>ValueError\<close> escapes and the answer is a server error (500).
\<close>

theorem min_not_a_number:
  assumes "map_of (args req) ''min'' = Some s" and "py_float_str s = None"
  shows "get_expensive st req = Resp 200 (JList (items_to_dicts (expensive st (Fin 100))))
       \<and> search_items st req = Unhandled ValueError
       \<and> status (search_items st req) = 500"
  using get_expensive_fallback [OF assms] search_items_raises [OF assms] by simp

text \<open>The query \<open>min=abc\<close> on the seed inventory.\<close>

theorem min_not_a_number_witness:
  "status (get_expensive initial_state (query_request [(''min'', ''abc'')])) = 200
   \<and> search_items initial_state (query_request [(''min'', ''abc'')]) = Unhandled ValueError
   \<and> status (search_items initial_state (query_request [(''min'', ''abc'')])) = 500"
proof -
  have m: "map_of (args (query_request [(''min'', ''abc'')])) ''min'' = Some ''abc''"
    by (simp add: query_request_def)
  show ?thesis
    using min_not_a_number [OF m py_float_str_abc, of initial_state] by simp
qed

subsection \<open>Identifiers after a sequence of requests\<close>

text \<open>
  Three requests on the seed inventory: the Pen is created, the payload with the
  category 7 raises and creates nothing, the Desk Lamp is created.
\<close>

lemma run_three:
  "next_id (run_creates initial_state
     [json_request (pen_payload (JStr ''1.5'')), json_request number_category_payload,
      json_request lamp_payload]) = 8"
proof -
  have d: "request_data (json_request (pen_payload (JStr ''1.5''))) =
      JDict [(''name'', JStr ''Pen''), (''price'', JStr ''1.5''),
             (''category'', JStr ''stationery'')]"
    by (simp add: pen_payload_data) (simp add: pen_payload_def)
  have l: "request_data (json_request lamp_payload) =
      JDict [(''name'', JStr ''  Desk Lamp ''), (''price'', JInt 12),
             (''category'', JStr '' furniture '')]"
    by (simp add: request_data_json lamp_payload_def)
  have c: "request_data (json_request number_category_payload) =
      JDict [(''name'', JStr ''Pen''), (''price'', JInt 2), (''category'', JInt 7)]"
    by (simp add: request_data_json number_category_payload_def)
  have s1: "next_id (fst (create_item st (json_request (pen_payload (JStr ''1.5''))))) =
      next_id st + 1" for st
    using create_item_created [OF d, of "''Pen''" "''stationery''" "Fin (3 / 2)" st]
    by (simp add: pen_payload_gets py_float_str_1_5)
  have s2: "fst (create_item st (json_request number_category_payload)) = st" for st
    using create_item_strip_raises [OF c, of "Fin 2" st]
    by (simp add: dict_get_def to_double_small)
  have s3: "next_id (fst (create_item st (json_request lamp_payload))) = next_id st + 1" for st
    using create_item_created [OF l, of "''  Desk Lamp ''" "'' furniture ''" "Fin 12" st]
    by (simp add: dict_get_def to_double_small)
  show ?thesis by (simp add: s1 s2 s3 initial_state_eq)
qed

text \<open>The identifiers are then 1 to 7: the request that raised consumed none.\<close>

theorem ids_strictly_increasing_witness:
  "map item_id (items (run_creates initial_state
     [json_request (pen_payload (JStr ''1.5'')), json_request number_category_payload,
      json_request lamp_payload])) = [1, 2, 3, 4, 5, 6, 7]"
proof -
  let ?s = "run_creates initial_state
     [json_request (pen_payload (JStr ''1.5'')), json_request number_category_payload,
      json_request lamp_payload]"
  have n: "next_id ?s = 8" by (rule run_three)
  have "map item_id (items ?s) = [1..next_id ?s - 1]"
    by (rule ids_strictly_increasing [THEN conjunct1])
  then show ?thesis unfolding n by (simp add: upto_rec1)
qed

end
